theory Spec2Isabelle
  imports Complex_Main "HOL-Library.Sublist"
begin

section \<open>Data model\<close>

text \<open>
  The crop ET model is Python; its floating-point quantities (temperatures, reference ET,
  growing degree days) are modelled as exact reals, its integer quantities (day of year,
  crop numbers) as integers. Every statement below about a mean or a sum is a statement
  of exact arithmetic.
\<close>

datatype error = ZeroDivisionError | ValueError | UnboundLocalError | IndexError

text \<open>The crop parameters read by \<open>compute_crop_gdd\<close>.\<close>

record Crop =
  class_number :: int
  curve_number :: int
  curve_name :: string
  tbase :: real
  crop_gdd_trigger_doy :: int

text \<open>
  The persistent per-crop state \<open>foo\<close> (an \<open>InitializeCropCycle\<close> object), restricted to
  the fields \<open>compute_crop_gdd\<close> reads or writes.
\<close>

record CropState =
  etref_30 :: real
  cgdd :: real
  gdd :: real
  penalty :: real
  cgdd_penalty :: real
  lDoy :: int
  doy_start_cycle :: int
  real_start :: bool
  in_season :: bool

text \<open>
  The per-day object \<open>foo_day\<close> (class \<open>DayData\<close>): one object for the whole day loop,
  its scalar fields overwritten every day, its 30-slot array \<open>etref_array\<close> kept.
\<close>

record DayData =
  etref_array :: "real list"
  sdays :: nat
  doy :: int
  tmax_orig :: real
  tdew :: real
  etref :: real
  tmean :: real
  tmin :: real
  tmax :: real
  snow_depth :: real
  rh_min :: real

text \<open>\<open>DayData.__init__\<close>: \<open>etref_array = np.zeros(30)\<close>; no other field is set yet.\<close>

definition DayData_init :: DayData where
  "DayData_init =
     \<lparr>etref_array = replicate 30 0, sdays = 0, doy = 0, tmax_orig = 0, tdew = 0, etref = 0,
      tmean = 0, tmin = 0, tmax = 0, snow_depth = 0, rh_min = 0\<rparr>"

section \<open>compute\_crop\_gdd\<close>

subsection \<open>Rolling 30 day reference ET (lines 13 to 24)\<close>

text \<open>The loop \<open>for idx in range(29): etref_array[idx] = etref_array[idx + 1]\<close>.\<close>

definition shift_etref_array :: "real list \<Rightarrow> real list" where
  "shift_etref_array arr = fold (\<lambda>idx a. a[idx := a ! (idx + 1)]) [0..<29] arr"

text \<open>
  \<open>sdays\<close> is a natural number: the day loop sets it to \<open>i + 1\<close> for the index \<open>i\<close> of
  \<open>enumerate\<close>. At \<open>sdays = 0\<close> the division by \<open>sdays\<close> has no value; this is the
  error branch.
\<close>

definition update_etref_30 :: "CropState \<Rightarrow> DayData \<Rightarrow> error + (CropState \<times> DayData)" where
  "update_etref_30 foo foo_day =
     (if sdays foo_day > 30 then
        (let etref_lost = etref_array foo_day ! 0;
             arr = (shift_etref_array (etref_array foo_day))[29 := etref foo_day]
         in Inr (foo\<lparr>etref_30 := etref_30 foo + (etref foo_day - etref_lost) / 30\<rparr>,
                 foo_day\<lparr>etref_array := arr\<rparr>))
      else if sdays foo_day = 0 then Inl ZeroDivisionError
      else
        Inr (foo\<lparr>etref_30 :=
                    (etref_30 foo * real (sdays foo_day - 1) + etref foo_day)
                      / real (sdays foo_day)\<rparr>,
             foo_day\<lparr>etref_array := (etref_array foo_day)[sdays foo_day - 1 := etref foo_day]\<rparr>))"

subsection \<open>Reset of CGDD at the trigger day (lines 35 to 51)\<close>

text \<open>\<open>crop.class_number in [13,14] or 'WINTER' in crop.curve_name\<close>\<close>

definition winter_reset_crop :: "Crop \<Rightarrow> bool" where
  "winter_reset_crop crop \<longleftrightarrow>
     class_number crop \<in> {13, 14} \<or> sublist ''WINTER'' (curve_name crop)"

text \<open>The four assignments of either reset branch.\<close>

definition season_reset :: "CropState \<Rightarrow> CropState" where
  "season_reset foo =
     foo\<lparr>cgdd := 0, doy_start_cycle := 0, real_start := False, in_season := False\<rparr>"

text \<open>The condition under which the branch taken for \<open>crop\<close> performs the reset.\<close>

definition reset_fires :: "Crop \<Rightarrow> CropState \<Rightarrow> DayData \<Rightarrow> bool" where
  "reset_fires crop foo foo_day \<longleftrightarrow>
     (if winter_reset_crop crop
      then lDoy foo < crop_gdd_trigger_doy crop \<and> doy foo_day \<ge> crop_gdd_trigger_doy crop
      else lDoy foo > crop_gdd_trigger_doy crop + 199
           \<and> doy foo_day < crop_gdd_trigger_doy crop + 199)"

definition reset_cgdd :: "Crop \<Rightarrow> DayData \<Rightarrow> CropState \<Rightarrow> CropState" where
  "reset_cgdd crop foo_day foo =
     (if winter_reset_crop crop then
        (if lDoy foo < crop_gdd_trigger_doy crop \<and> doy foo_day \<ge> crop_gdd_trigger_doy crop
         then season_reset foo else foo)\<lparr>lDoy := doy foo_day\<rparr>
      else
        (if lDoy foo > crop_gdd_trigger_doy crop + 199
            \<and> doy foo_day < crop_gdd_trigger_doy crop + 199
         then season_reset foo else foo)\<lparr>lDoy := doy foo_day\<rparr>)"

subsection \<open>Daily GDD and CGDD (lines 64 to 128)\<close>

text \<open>\<open>crop.class_number in [13,14] or crop.curve_name == 'WINTER WHEAT'\<close>\<close>

definition winter_grain :: "Crop \<Rightarrow> bool" where
  "winter_grain crop \<longleftrightarrow> class_number crop \<in> {13, 14} \<or> curve_name crop = ''WINTER WHEAT''"

text \<open>The winter grain branch, lines 80 to 106; first the value of \<open>foo.gdd\<close> after line 86.\<close>

definition winter_grain_base_gdd :: "Crop \<Rightarrow> DayData \<Rightarrow> real" where
  "winter_grain_base_gdd crop foo_day =
     (if tmin foo_day < - 4 then 0
      else if tmean foo_day > tbase crop then tmean foo_day - tbase crop
      else 0)"

definition winter_grain_gdd :: "Crop \<Rightarrow> DayData \<Rightarrow> CropState \<Rightarrow> CropState" where
  "winter_grain_gdd crop foo_day foo =
     (let g0 = winter_grain_base_gdd crop foo_day;
          g1 = g0 - penalty foo;
          g2 = max g1 0;
          c1 = cgdd foo + g2 - cgdd_penalty foo;
          c2 = max 0 c1;
          p = (if tmin foo_day < - 10 then 5 else 0);
          cp = (if tmin foo_day < - 25 \<and> snow_depth foo_day \<le> 0 then c2 * 0.1 else 0)
      in foo\<lparr>gdd := g2, cgdd := c2, penalty := p, cgdd_penalty := cp\<rparr>)"

text \<open>The locals of the corn branch, lines 109 to 122.\<close>

definition tmaxl :: "Crop \<Rightarrow> DayData \<Rightarrow> real" where
  "tmaxl crop foo_day =
     (let t = (if tmax foo_day > 30 then 30 else tmax foo_day)
      in if tmax foo_day < - tbase crop then - tbase crop else t)"

definition tminl :: "Crop \<Rightarrow> DayData \<Rightarrow> real" where
  "tminl crop foo_day =
     (let t = (if tmin foo_day > 30 then 30 else tmin foo_day)
      in if tmin foo_day < - tbase crop then - tbase crop else t)"

definition tmeanl :: "Crop \<Rightarrow> DayData \<Rightarrow> real" where
  "tmeanl crop foo_day = 0.5 * (tmaxl crop foo_day + tminl crop foo_day)"

definition update_cgdd :: "Crop \<Rightarrow> DayData \<Rightarrow> CropState \<Rightarrow> CropState" where
  "update_cgdd crop foo_day foo =
     (if curve_number crop > 0 then
        (if winter_grain crop then winter_grain_gdd crop foo_day foo
         else if tbase crop < 0 then
           foo\<lparr>cgdd := cgdd foo + tmeanl crop foo_day + tbase crop\<rparr>
         else if tmean foo_day > tbase crop then
           foo\<lparr>gdd := tmean foo_day - tbase crop,
               cgdd := cgdd foo + (tmean foo_day - tbase crop)\<rparr>
         else foo)
      else foo)"

subsection \<open>The whole function\<close>

definition compute_crop_gdd :: "Crop \<Rightarrow> CropState \<Rightarrow> DayData \<Rightarrow> error + (CropState \<times> DayData)" where
  "compute_crop_gdd crop foo foo_day =
     (case update_etref_30 foo foo_day of
        Inl e \<Rightarrow> Inl e
      | Inr (foo1, foo_day1) \<Rightarrow>
          Inr (update_cgdd crop foo_day1 (reset_cgdd crop foo_day1 foo1), foo_day1))"

section \<open>crop\_day\_loop\<close>

text \<open>
  Position \<open>i\<close> of the arrays in \<open>et_cell.refet\<close> and \<open>et_cell.climate\<close> that the day loop
  reads: the arrays come from data frames over one date index, so a run is a list of such
  rows. Dates are day numbers.
\<close>

record StepRow =
  r_Dates :: int
  r_doy :: int
  r_TMax :: real
  r_TDew :: real
  r_ASCEPMStdETr :: real
  r_ASCEPMStdETo :: real
  r_tmean_array :: real
  r_tmin_array :: real
  r_tmax_array :: real
  r_snow_depth :: real

text \<open>
  The truth value numpy gives an array, which is what Python's \<open>and\<close> asks of its left
  operand: the element for one element, False for none, a ValueError otherwise.
\<close>

fun np_bool :: "bool list \<Rightarrow> error + bool" where
  "np_bool [] = Inr False"
| "np_bool [b] = Inr b"
| "np_bool (b # c # bs) = Inl ValueError"

text \<open>
  Lines 111 to 113: \<open>(Dates >= start_dt) and (Dates <= end_dt)\<close>. Each comparison is
  elementwise; \<open>x and y\<close> is \<open>y\<close> if \<open>x\<close> is true, else \<open>x\<close>.
\<close>

definition date_mask :: "int list \<Rightarrow> int \<Rightarrow> int \<Rightarrow> error + bool list" where
  "date_mask Dates start_dt end_dt =
     (let ge = map (\<lambda>d. d \<ge> start_dt) Dates;
          le = map (\<lambda>d. d \<le> end_dt) Dates
      in case np_bool ge of
           Inl e \<Rightarrow> Inl e
         | Inr t \<Rightarrow> Inr (if t then le else ge))"

text \<open>The mask the comment on line 110 asks for.\<close>

definition elementwise_mask :: "int list \<Rightarrow> int \<Rightarrow> int \<Rightarrow> bool list" where
  "elementwise_mask Dates start_dt end_dt = map (\<lambda>d. d \<ge> start_dt \<and> d \<le> end_dt) Dates"

text \<open>Lines 105 to 108: the reference ET column in use, at one row.\<close>

definition refet_array :: "int \<Rightarrow> StepRow \<Rightarrow> real" where
  "refet_array refet_type row =
     (if refet_type > 0 then r_ASCEPMStdETr row else r_ASCEPMStdETo row)"

text \<open>Lines 157 to 175, for the fields modelled.\<close>

definition set_day_data :: "int \<Rightarrow> nat \<Rightarrow> StepRow \<Rightarrow> DayData \<Rightarrow> DayData" where
  "set_day_data refet_type i row foo_day =
     foo_day\<lparr>sdays := i + 1,
             doy := r_doy row,
             tmax_orig := r_TMax row,
             tdew := r_TDew row,
             etref := refet_array refet_type row,
             tmean := r_tmean_array row,
             tmin := r_tmin_array row,
             tmax := r_tmax_array row,
             snow_depth := r_snow_depth row\<rparr>"

text \<open>
  Lines 183 to 190. \<open>util.aFNEs\<close>, the saturation vapour pressure, is not part of the
  sources and is a parameter. The division is Python's: it raises at a zero divisor.
\<close>

definition compute_rh_min :: "(real \<Rightarrow> real) \<Rightarrow> DayData \<Rightarrow> error + DayData" where
  "compute_rh_min aFNEs foo_day =
     (if tdew foo_day < - 90 \<or> tmax_orig foo_day < - 90 then Inr (foo_day\<lparr>rh_min := 30\<rparr>)
      else
        (let es_tdew = aFNEs (tdew foo_day);
             es_tmax = aFNEs (tmax_orig foo_day)
         in if es_tmax = 0 then Inl ZeroDivisionError
            else Inr (foo_day\<lparr>rh_min := min (es_tdew / es_tmax * 100) 100\<rparr>)))"

text \<open>
  The body of one day, lines 157 to 195. \<open>compute_crop_et\<close>, which the loop calls on line
  194 with the crop, \<open>foo\<close> and \<open>foo_day\<close>, is not part of the sources and is a parameter,
  a computation that may change both objects or raise; so are the season setup methods of
  \<open>foo\<close> that lines 144 to 152 call, which are left out.
\<close>

definition day_step ::
  "(real \<Rightarrow> real) \<Rightarrow> (Crop \<Rightarrow> CropState \<Rightarrow> DayData \<Rightarrow> error + (CropState \<times> DayData))
     \<Rightarrow> int \<Rightarrow> Crop \<Rightarrow> nat \<Rightarrow> StepRow \<Rightarrow> CropState \<times> DayData
     \<Rightarrow> error + (CropState \<times> DayData)" where
  "day_step aFNEs compute_crop_et refet_type crop i row s =
     (case compute_rh_min aFNEs (set_day_data refet_type i row (snd s)) of
        Inl e \<Rightarrow> Inl e
      | Inr foo_day \<Rightarrow> compute_crop_et crop (fst s) foo_day)"

text \<open>
  The loop of line 115 over the rows paired with their mask entries; a row whose mask entry
  is false is skipped, and the index still advances.
\<close>

fun day_loop ::
  "(real \<Rightarrow> real) \<Rightarrow> (Crop \<Rightarrow> CropState \<Rightarrow> DayData \<Rightarrow> error + (CropState \<times> DayData))
     \<Rightarrow> int \<Rightarrow> Crop \<Rightarrow> nat \<Rightarrow> (bool \<times> StepRow) list \<Rightarrow> CropState \<times> DayData
     \<Rightarrow> error + (CropState \<times> DayData)" where
  "day_loop aFNEs compute_crop_et refet_type crop i [] s = Inr s"
| "day_loop aFNEs compute_crop_et refet_type crop i ((m, row) # rest) s =
     (if \<not> m then day_loop aFNEs compute_crop_et refet_type crop (Suc i) rest s
      else
        (case day_step aFNEs compute_crop_et refet_type crop i row s of
           Inl e \<Rightarrow> Inl e
         | Inr s' \<Rightarrow> day_loop aFNEs compute_crop_et refet_type crop (Suc i) rest s'))"

definition crop_day_loop ::
  "(real \<Rightarrow> real) \<Rightarrow> (Crop \<Rightarrow> CropState \<Rightarrow> DayData \<Rightarrow> error + (CropState \<times> DayData))
     \<Rightarrow> int \<Rightarrow> Crop \<Rightarrow> CropState \<Rightarrow> StepRow list \<Rightarrow> int \<Rightarrow> int
     \<Rightarrow> error + (CropState \<times> DayData)" where
  "crop_day_loop aFNEs compute_crop_et refet_type crop foo rows start_dt end_dt =
     (case date_mask (map r_Dates rows) start_dt end_dt of
        Inl e \<Rightarrow> Inl e
      | Inr dmask \<Rightarrow>
          day_loop aFNEs compute_crop_et refet_type crop 0 (zip dmask rows) (foo, DayData_init))"



section \<open>ETCell.process\_climate\<close>

text \<open>
  One row of the data frame \<open>climate_pd\<close> as it stands on line 544, after the aridity
  adjustment of the temperatures: the year of the date index and the columns
  \<open>doy\<close>, \<open>tmax\<close>, \<open>tmin\<close>, \<open>snow\<close>, \<open>snow_depth\<close>.
\<close>

record ClimateRow =
  c_year :: int
  c_doy :: int
  c_tmax :: real
  c_tmin :: real
  c_snow :: real
  c_snow_depth :: real

text \<open>\<open>climate_pd[["tmax", "tmin"]].mean(axis=1)\<close>\<close>

definition tmean_col :: "ClimateRow list \<Rightarrow> real list" where
  "tmean_col rows = map (\<lambda>r. (c_tmax r + c_tmin r) / 2) rows"

text \<open>
  \<open>pd.rolling_mean(x, window, min_periods=1)\<close>: at position \<open>i\<close> the mean of the last
  \<open>window\<close> values up to and including \<open>i\<close>, or of all of them while fewer exist.
\<close>

definition rolling_mean :: "nat \<Rightarrow> real list \<Rightarrow> real list" where
  "rolling_mean window xs =
     map (\<lambda>i. let w = drop (Suc i - window) (take (Suc i) xs)
              in sum_list w / real (length w)) [0..<length xs]"

text \<open>
  \<open>frame.groupby(key).mean()\<close> on one value column: one entry per distinct key, in
  ascending key order, the mean of the values of the rows with that key.
\<close>

definition groupby_mean :: "int list \<Rightarrow> real list \<Rightarrow> real list" where
  "groupby_mean ks vs =
     map (\<lambda>k. let g = map snd (filter (\<lambda>kv. fst kv = k) (zip ks vs))
              in sum_list g / real (length g)) (sort (remdups ks))"

text \<open>
  \<open>frame.groupby(key).cumsum()\<close>: for each row, the running total of the values of the
  rows so far with the same key. \<open>acc\<close> holds the total per key.
\<close>

fun groupby_cumsum :: "(int \<Rightarrow> real) \<Rightarrow> int list \<Rightarrow> real list \<Rightarrow> real list" where
  "groupby_cumsum acc (k # ks) (v # vs) =
     (acc k + v) # groupby_cumsum (acc(k := acc k + v)) ks vs"
| "groupby_cumsum acc _ _ = []"

text \<open>Lines 552 to 553: the column \<open>cgdd\<close> starts as \<open>tmean\<close>, set to 0 where \<open>tmean <= 0\<close>.\<close>

definition gdd_base0 :: "real list \<Rightarrow> real list" where
  "gdd_base0 tm = map (\<lambda>t. if t \<le> 0 then 0 else t) tm"

text \<open>\<open>np.insert(a, 0, a[0])\<close>\<close>

definition insert_doy0 :: "real list \<Rightarrow> error + real list" where
  "insert_doy0 a = (case a of [] \<Rightarrow> Inl IndexError | x # xs \<Rightarrow> Inr (x # x # xs))"

text \<open>Lines 544 to 575: the pair \<open>(main_t30_lt, main_cgdd_0_lt)\<close>.\<close>

definition long_term_normals :: "ClimateRow list \<Rightarrow> error + (real list \<times> real list)" where
  "long_term_normals rows =
     (let tm = tmean_col rows;
          t30 = rolling_mean 30 tm;
          main_t30_lt = groupby_mean (map c_doy rows) t30;
          cgdd_col = groupby_cumsum (\<lambda>y. 0) (map c_year rows) (gdd_base0 tm);
          main_cgdd_0_lt = groupby_mean (map c_doy rows) cgdd_col
      in case insert_doy0 main_t30_lt of
           Inl e \<Rightarrow> Inl e
         | Inr t \<Rightarrow>
             (case insert_doy0 main_cgdd_0_lt of
                Inl e \<Rightarrow> Inl e
              | Inr c \<Rightarrow> Inr (t, c)))"

text \<open>
  The loop of lines 584 to 594. The local \<open>snow_accum\<close> is \<open>None\<close> while it is unbound;
  \<open>snow_accum += snow * 0.5\<close> reads it first.
\<close>

fun snow_loop :: "real option \<Rightarrow> ClimateRow list \<Rightarrow> error + real list" where
  "snow_loop snow_accum [] = Inr []"
| "snow_loop snow_accum (r # rs) =
     (case snow_accum of
        None \<Rightarrow> Inl UnboundLocalError
      | Some a \<Rightarrow>
          (let a1 = a + c_snow r * 0.5;
               snow_melt = max (4 * c_tmax r) 0;
               a2 = max (a1 - snow_melt) 0;
               sd = min (c_snow_depth r) a2
           in case snow_loop (Some a2) rs of
                Inl e \<Rightarrow> Inl e
              | Inr sds \<Rightarrow> Inr (sd # sds)))"

text \<open>
  Lines 583 to 594: the snow depth column after the estimate. Nothing assigns
  \<open>snow_accum\<close> before the loop.
\<close>

definition estimate_snow_depth :: "ClimateRow list \<Rightarrow> error + real list" where
  "estimate_snow_depth rows =
     (if \<exists>r \<in> set rows. c_snow r \<noteq> 0 then snow_loop None rows
      else Inr (map c_snow_depth rows))"

definition process_climate :: "ClimateRow list \<Rightarrow> error + ((real list \<times> real list) \<times> real list)" where
  "process_climate rows =
     (case long_term_normals rows of
        Inl e \<Rightarrow> Inl e
      | Inr lt \<Rightarrow>
          (case estimate_snow_depth rows of
             Inl e \<Rightarrow> Inl e
           | Inr sd \<Rightarrow> Inr (lt, sd)))"

subsection \<open>The long term normals in the words of the specification\<close>

text \<open>The positions of the record whose day of year is \<open>d\<close>.\<close>

definition days_with_doy :: "ClimateRow list \<Rightarrow> int \<Rightarrow> nat list" where
  "days_with_doy rows d = filter (\<lambda>i. c_doy (rows ! i) = d) [0..<length rows]"

text \<open>The average of a daily quantity \<open>v\<close> over all days (of all years) with day of year \<open>d\<close>.\<close>

definition spec_doy_average :: "(nat \<Rightarrow> real) \<Rightarrow> ClimateRow list \<Rightarrow> int \<Rightarrow> real" where
  "spec_doy_average v rows d =
     sum_list (map v (days_with_doy rows d)) / real (length (days_with_doy rows d))"

definition spec_tmean :: "ClimateRow list \<Rightarrow> nat \<Rightarrow> real" where
  "spec_tmean rows j = (c_tmax (rows ! j) + c_tmin (rows ! j)) / 2"

text \<open>
  The trailing mean of \<open>tmean\<close> over the 30 days ending at day \<open>i\<close>, over the \<open>i + 1\<close> days
  there are while \<open>i < 29\<close>.
\<close>

definition spec_T30 :: "ClimateRow list \<Rightarrow> nat \<Rightarrow> real" where
  "spec_T30 rows i =
     sum_list (map (spec_tmean rows) [i - 29..<Suc i]) / real (min (Suc i) 30)"

text \<open>
  The base 0 growing degree days accumulated up to day \<open>i\<close> within the calendar year of
  day \<open>i\<close>.
\<close>

definition spec_CGDD0 :: "ClimateRow list \<Rightarrow> nat \<Rightarrow> real" where
  "spec_CGDD0 rows i =
     sum_list (map (\<lambda>j. max (spec_tmean rows j) 0)
       (filter (\<lambda>j. c_year (rows ! j) = c_year (rows ! i)) [0..<Suc i]))"

section \<open>Example inputs\<close>

definition foo_zero :: CropState where
  "foo_zero =
     \<lparr>etref_30 = 0, cgdd = 0, gdd = 0, penalty = 0, cgdd_penalty = 0, lDoy = 0,
      doy_start_cycle = 0, real_start = False, in_season = False\<rparr>"

definition corn_crop :: Crop where
  "corn_crop =
     \<lparr>class_number = 7, curve_number = 7, curve_name = ''FIELD CORN'', tbase = - 8,
      crop_gdd_trigger_doy = 1\<rparr>"

definition generic_crop :: Crop where
  "generic_crop =
     \<lparr>class_number = 1, curve_number = 1, curve_name = ''ALFALFA'', tbase = 5,
      crop_gdd_trigger_doy = 1\<rparr>"

definition winter_wheat_crop :: Crop where
  "winter_wheat_crop =
     \<lparr>class_number = 13, curve_number = 13, curve_name = ''WINTER WHEAT'', tbase = 0,
      crop_gdd_trigger_doy = 274\<rparr>"

definition example_row :: StepRow where
  "example_row =
     \<lparr>r_Dates = 0, r_doy = 1, r_TMax = 20, r_TDew = 10, r_ASCEPMStdETr = 6,
      r_ASCEPMStdETo = 5, r_tmean_array = 15, r_tmin_array = 10, r_tmax_array = 20,
      r_snow_depth = 0\<rparr>"

text \<open>Every day of the leap year 2000.\<close>

definition leap_year_record :: "ClimateRow list" where
  "leap_year_record =
     map (\<lambda>d. \<lparr>c_year = 2000, c_doy = d, c_tmax = 10, c_tmin = 0, c_snow = 0,
                c_snow_depth = 0\<rparr>) [1..366]"

text \<open>Days 1 and 2 of two years, with mean temperatures 5, 7, 9 and \<open>-1\<close>.\<close>

definition two_year_record :: "ClimateRow list" where
  "two_year_record =
     [\<lparr>c_year = 2000, c_doy = 1, c_tmax = 10, c_tmin = 0, c_snow = 0, c_snow_depth = 0\<rparr>,
      \<lparr>c_year = 2000, c_doy = 2, c_tmax = 14, c_tmin = 0, c_snow = 0, c_snow_depth = 0\<rparr>,
      \<lparr>c_year = 2001, c_doy = 1, c_tmax = 18, c_tmin = 0, c_snow = 0, c_snow_depth = 0\<rparr>,
      \<lparr>c_year = 2001, c_doy = 2, c_tmax = - 2, c_tmin = 0, c_snow = 0, c_snow_depth = 0\<rparr>]"


section \<open>Helper lemmas\<close>

subsection \<open>One day of compute\_crop\_gdd\<close>

lemma update_etref_30_Inr:
  "1 \<le> sdays foo_day \<Longrightarrow> \<exists>foo1 fd1. update_etref_30 foo foo_day = Inr (foo1, fd1)"
  by (auto simp: update_etref_30_def Let_def)

lemma update_etref_30_fields:
  assumes "update_etref_30 foo foo_day = Inr (foo1, fd1)"
  shows "cgdd foo1 = cgdd foo" "gdd foo1 = gdd foo" "penalty foo1 = penalty foo"
    "cgdd_penalty foo1 = cgdd_penalty foo" "lDoy foo1 = lDoy foo"
    "doy_start_cycle foo1 = doy_start_cycle foo" "real_start foo1 = real_start foo"
    "in_season foo1 = in_season foo"
    "doy fd1 = doy foo_day" "tmin fd1 = tmin foo_day" "tmax fd1 = tmax foo_day"
    "tmean fd1 = tmean foo_day" "snow_depth fd1 = snow_depth foo_day"
    "sdays fd1 = sdays foo_day" "etref fd1 = etref foo_day" "rh_min fd1 = rh_min foo_day"
  using assms by (auto simp: update_etref_30_def Let_def split: if_splits)

lemma reset_cgdd_eq:
  "reset_cgdd crop foo_day foo =
     (if reset_fires crop foo foo_day then season_reset foo else foo)\<lparr>lDoy := doy foo_day\<rparr>"
  by (simp add: reset_cgdd_def reset_fires_def)

lemma lDoy_update_cgdd: "lDoy (update_cgdd crop foo_day foo) = lDoy foo"
  by (simp add: update_cgdd_def winter_grain_gdd_def Let_def)

lemma compute_crop_gdd_Inr:
  assumes "1 \<le> sdays foo_day"
  shows "\<exists>foo1 fd1. update_etref_30 foo foo_day = Inr (foo1, fd1)
           \<and> compute_crop_gdd crop foo foo_day
               = Inr (update_cgdd crop fd1 (reset_cgdd crop fd1 foo1), fd1)"
proof -
  obtain foo1 fd1 where u: "update_etref_30 foo foo_day = Inr (foo1, fd1)"
    using update_etref_30_Inr [OF assms] by blast
  then show ?thesis by (simp add: compute_crop_gdd_def)
qed

lemma compute_crop_gdd_lDoy:
  assumes "compute_crop_gdd crop foo fd = Inr (foo', fd')"
  shows "lDoy foo' = doy fd"
proof -
  obtain foo1 fd1 where u: "update_etref_30 foo fd = Inr (foo1, fd1)"
    and r: "foo' = update_cgdd crop fd1 (reset_cgdd crop fd1 foo1)"
    using assms by (auto simp: compute_crop_gdd_def split: sum.splits)
  show ?thesis
    by (simp add: r lDoy_update_cgdd reset_cgdd_eq update_etref_30_fields(9) [OF u])
qed

lemma winter_grain_gdd_fields:
  "gdd (winter_grain_gdd crop fd foo) = max (winter_grain_base_gdd crop fd - penalty foo) 0"
  "cgdd (winter_grain_gdd crop fd foo)
     = max 0 (cgdd foo + gdd (winter_grain_gdd crop fd foo) - cgdd_penalty foo)"
  "penalty (winter_grain_gdd crop fd foo) = (if tmin fd < - 10 then 5 else 0)"
  "cgdd_penalty (winter_grain_gdd crop fd foo)
     = (if tmin fd < - 25 \<and> snow_depth fd \<le> 0
        then 0.10 * cgdd (winter_grain_gdd crop fd foo) else 0)"
  by (simp_all add: winter_grain_gdd_def Let_def)

lemma cgdd_reset_cgdd:
  "cgdd (reset_cgdd crop fd foo) = (if reset_fires crop foo fd then 0 else cgdd foo)"
  "gdd (reset_cgdd crop fd foo) = gdd foo"
  "penalty (reset_cgdd crop fd foo) = penalty foo"
  "cgdd_penalty (reset_cgdd crop fd foo) = cgdd_penalty foo"
  by (simp_all add: reset_cgdd_eq season_reset_def)

lemma reset_fires_cong:
  "lDoy foo1 = lDoy foo \<Longrightarrow> doy fd1 = doy fd \<Longrightarrow>
   reset_fires crop foo1 fd1 = reset_fires crop foo fd"
  by (simp add: reset_fires_def)

lemma winter_grain_base_gdd_cong:
  "tmin fd1 = tmin fd \<Longrightarrow> tmean fd1 = tmean fd \<Longrightarrow>
   winter_grain_base_gdd crop fd1 = winter_grain_base_gdd crop fd"
  by (simp add: winter_grain_base_gdd_def)

lemma winter_day:
  assumes wg: "winter_grain crop" and cn: "curve_number crop > 0"
    and c: "compute_crop_gdd crop foo fd = Inr (foo', fd')"
  shows "gdd foo' = max (winter_grain_base_gdd crop fd - penalty foo) 0"
    and "cgdd foo' = max 0 ((if reset_fires crop foo fd then 0 else cgdd foo)
                             + gdd foo' - cgdd_penalty foo)"
    and "penalty foo' = (if tmin fd < - 10 then 5 else 0)"
    and "cgdd_penalty foo' = (if tmin fd < - 25 \<and> snow_depth fd \<le> 0
                               then 0.10 * cgdd foo' else 0)"
proof -
  obtain foo1 fd1 where u: "update_etref_30 foo fd = Inr (foo1, fd1)"
    and r: "foo' = update_cgdd crop fd1 (reset_cgdd crop fd1 foo1)"
    using c by (auto simp: compute_crop_gdd_def split: sum.splits)
  note f = update_etref_30_fields [OF u]
  have e: "foo' = winter_grain_gdd crop fd1 (reset_cgdd crop fd1 foo1)"
    using r wg cn by (simp add: update_cgdd_def)
  have rf: "reset_fires crop foo1 fd1 = reset_fires crop foo fd"
    by (rule reset_fires_cong) (simp_all add: f)
  have bg: "winter_grain_base_gdd crop fd1 = winter_grain_base_gdd crop fd"
    by (rule winter_grain_base_gdd_cong) (simp_all add: f)
  show "gdd foo' = max (winter_grain_base_gdd crop fd - penalty foo) 0"
    by (simp add: e winter_grain_gdd_fields(1) cgdd_reset_cgdd bg f)
  show "cgdd foo' = max 0 ((if reset_fires crop foo fd then 0 else cgdd foo)
                             + gdd foo' - cgdd_penalty foo)"
    unfolding e winter_grain_gdd_fields(2) [of crop fd1] by (simp add: cgdd_reset_cgdd rf f)
  show "penalty foo' = (if tmin fd < - 10 then 5 else 0)"
    by (simp add: e winter_grain_gdd_fields(3) f)
  show "cgdd_penalty foo' = (if tmin fd < - 25 \<and> snow_depth fd \<le> 0
                               then 0.10 * cgdd foo' else 0)"
    unfolding e winter_grain_gdd_fields(4) [of crop fd1] by (simp add: f)
qed


lemma corn_limits_ge_base:
  assumes "- 30 \<le> tbase crop"
  shows "- tbase crop \<le> tmaxl crop fd" and "- tbase crop \<le> tminl crop fd"
  using assms by (auto simp: tmaxl_def tminl_def Let_def)

lemma update_cgdd_nonneg:
  assumes "0 \<le> cgdd foo" and "- 30 \<le> tbase crop"
  shows "0 \<le> cgdd (update_cgdd crop fd foo)"
    and "0 \<le> gdd foo
         \<or> (curve_number crop > 0
            \<and> (winter_grain crop \<or> (0 \<le> tbase crop \<and> tbase crop < tmean fd)))
         \<Longrightarrow> 0 \<le> gdd (update_cgdd crop fd foo)"
proof -
  have "0 \<le> tmeanl crop fd + tbase crop"
    using corn_limits_ge_base [OF assms(2), of fd] by (simp add: tmeanl_def field_simps)
  then show "0 \<le> cgdd (update_cgdd crop fd foo)"
    using assms(1) by (simp add: update_cgdd_def winter_grain_gdd_def Let_def)
  show "0 \<le> gdd (update_cgdd crop fd foo)"
    if "0 \<le> gdd foo
         \<or> (curve_number crop > 0
            \<and> (winter_grain crop \<or> (0 \<le> tbase crop \<and> tbase crop < tmean fd)))"
    using that by (auto simp: update_cgdd_def winter_grain_gdd_def Let_def)
qed

subsection \<open>The 30 slot array of reference ET\<close>














subsection \<open>The day loop\<close>

lemma compute_rh_min_fields:
  assumes "compute_rh_min aFNEs fd = Inr fd1"
  shows "etref_array fd1 = etref_array fd" "sdays fd1 = sdays fd" "doy fd1 = doy fd"
    "etref fd1 = etref fd" "tmean fd1 = tmean fd" "tmin fd1 = tmin fd" "tmax fd1 = tmax fd"
    "snow_depth fd1 = snow_depth fd"
  using assms by (auto simp: compute_rh_min_def Let_def split: if_splits)


lemma compute_crop_gdd_rh_min:
  assumes "compute_crop_gdd crop foo fd = Inr (foo', fd')"
  shows "rh_min fd' = rh_min fd"
proof -
  obtain foo1 where u: "update_etref_30 foo fd = Inr (foo1, fd')"
    using assms by (auto simp: compute_crop_gdd_def split: sum.splits)
  show ?thesis using update_etref_30_fields(16) [OF u] .
qed

lemma day_step_Inr:
  assumes "compute_rh_min aFNEs (set_day_data refet_type i row (snd s)) = Inr fd1"
  shows "\<exists>foo' fd'. day_step aFNEs compute_crop_gdd refet_type crop i row s = Inr (foo', fd')
           \<and> compute_crop_gdd crop (fst s) fd1 = Inr (foo', fd')"
proof -
  have "sdays fd1 = i + 1"
    using compute_rh_min_fields(2) [OF assms] by (simp add: set_day_data_def)
  then have "1 \<le> sdays fd1" by simp
  then obtain foo' fd' where "compute_crop_gdd crop (fst s) fd1 = Inr (foo', fd')"
    using compute_crop_gdd_Inr by blast
  then show ?thesis by (simp add: day_step_def assms)
qed




lemma np_bool_many: "1 < length bs \<Longrightarrow> np_bool bs = Inl ValueError"
  by (cases bs rule: np_bool.cases) simp_all

text \<open>With at most one date the expression does yield the elementwise conjunction.\<close>

lemma date_mask_short:
  "length (rows :: StepRow list) \<le> 1 \<Longrightarrow>
   date_mask (map r_Dates rows) start_dt end_dt
     = Inr (elementwise_mask (map r_Dates rows) start_dt end_dt)"
  by (cases rows) (auto simp: date_mask_def elementwise_mask_def)

subsection \<open>The snow depth estimate\<close>

text \<open>
  Started from a bound accumulator the loop returns a snow depth for every day; from 0,
  the first day gives the minimum of the recorded depth and half the snowfall less the
  melt, floored at 0.
\<close>

lemma snow_loop_initialised:
  "\<exists>sds. snow_loop (Some a) rows = Inr sds \<and> length sds = length rows"
proof (induction rows arbitrary: a)
  case Nil
  show ?case by simp
next
  case (Cons r rows)
  obtain sds where
    "snow_loop (Some (max (a + c_snow r * 0.5 - max (4 * c_tmax r) 0) 0)) rows = Inr sds"
    "length sds = length rows"
    using Cons.IH by blast
  then show ?case by (simp add: Let_def)
qed

lemma snow_loop_first_day:
  "snow_loop (Some 0) [r]
     = Inr [min (c_snow_depth r) (max (0.5 * c_snow r - max (4 * c_tmax r) 0) 0)]"
  by (simp add: Let_def)

text \<open>Every record with snowfall ends in the error of the unbound local.\<close>

lemma snow_loop_unbound:
  "rows \<noteq> [] \<Longrightarrow> snow_loop None rows = Inl UnboundLocalError"
  by (cases rows) simp_all

lemma estimate_snow_depth_raises:
  "\<exists>r \<in> set rows. c_snow r \<noteq> 0 \<Longrightarrow> estimate_snow_depth rows = Inl UnboundLocalError"
  by (cases rows) (simp_all add: estimate_snow_depth_def)

subsection \<open>The data frame operations, position by position\<close>

lemma zip_as_map_nth:
  "length xs = length ys \<Longrightarrow> zip xs ys = map (\<lambda>i. (xs ! i, ys ! i)) [0..<length xs]"
  by (rule nth_equalityI) simp_all

lemma group_values_by_index:
  assumes "length ks = length vs"
  shows "map snd (filter (\<lambda>kv. fst kv = k) (zip ks vs))
           = map ((!) vs) (filter (\<lambda>i. ks ! i = k) [0..<length ks])"
  by (simp add: zip_as_map_nth [OF assms] filter_map comp_def)

lemma keys_of_full_year:
  assumes "set ks = {1..int K}"
  shows "sort (remdups ks) = [1..int K]"
proof (rule sorted_distinct_set_unique)
  show "sorted (sort (remdups ks))" by simp
  show "distinct (sort (remdups ks))" by simp
  show "sorted [1..int K]" by simp
  show "distinct [1..int K]" by simp
  show "set (sort (remdups ks)) = set [1..int K]" using assms by simp
qed

lemma groupby_mean_nth:
  assumes len: "length ks = length vs" and full: "set ks = {1..int K}"
    and d: "1 \<le> d" "d \<le> K"
  shows "groupby_mean ks vs ! (d - 1)
           = sum_list (map ((!) vs) (filter (\<lambda>i. ks ! i = int d) [0..<length ks]))
               / real (length (filter (\<lambda>i. ks ! i = int d) [0..<length ks]))"
proof -
  have k: "sort (remdups ks) = [1..int K]" using keys_of_full_year [OF full] .
  have l: "d - 1 < length [1..int K]" using d by simp
  have n: "[1..int K] ! (d - 1) = int d" using d by (simp add: of_nat_diff)
  show ?thesis
    unfolding groupby_mean_def k nth_map [OF l] n
    by (simp add: Let_def group_values_by_index [OF len])
qed

lemma length_groupby_mean:
  "set ks = {1..int K} \<Longrightarrow> length (groupby_mean ks vs) = K"
  unfolding groupby_mean_def length_map by (simp only: keys_of_full_year) simp

lemma length_groupby_cumsum:
  "length (groupby_cumsum acc ks vs) = min (length ks) (length vs)"
  by (induction acc ks vs rule: groupby_cumsum.induct) (simp_all add: fun_upd_def)

lemma upt_Suc_shift: "[0..<Suc (Suc i)] = 0 # map Suc [0..<Suc i]"
  by (simp add: upt_conv_Cons map_Suc_upt del: upt_Suc)

lemma groupby_cumsum_nth:
  "i < length ks \<Longrightarrow> i < length vs \<Longrightarrow>
   groupby_cumsum acc ks vs ! i
     = acc (ks ! i) + sum_list (map ((!) vs) (filter (\<lambda>j. ks ! j = ks ! i) [0..<Suc i]))"
proof (induction acc ks vs arbitrary: i rule: groupby_cumsum.induct)
  case (1 acc k ks v vs)
  show ?case
  proof (cases i)
    case 0
    then show ?thesis by simp
  next
    case (Suc i')
    then have i': "i' < length ks" "i' < length vs" using "1.prems" by simp_all
    have "groupby_cumsum acc (k # ks) (v # vs) ! i
            = groupby_cumsum (acc(k := acc k + v)) ks vs ! i'"
      by (simp add: Suc)
    also have "\<dots> = (acc(k := acc k + v)) (ks ! i')
                 + sum_list (map ((!) vs) (filter (\<lambda>j. ks ! j = ks ! i') [0..<Suc i']))"
      using "1.IH" [OF i'] by (simp add: fun_upd_def)
    also have "\<dots> = acc ((k # ks) ! i)
                 + sum_list (map ((!) (v # vs))
                     (filter (\<lambda>j. (k # ks) ! j = (k # ks) ! i) [0..<Suc i]))"
      unfolding Suc upt_Suc_shift
      by (simp add: filter_map comp_def del: upt_Suc)
    finally show ?thesis .
  qed
qed simp_all

lemma window_as_map_nth:
  assumes "b \<le> length xs"
  shows "drop a (take b xs) = map ((!) xs) [a..<b]"
proof -
  have "take b xs = map ((!) xs) [0..<b]"
    using assms by (intro nth_equalityI) simp_all
  then show ?thesis by (simp add: drop_map)
qed

lemma rolling_mean_nth:
  assumes "i < length xs"
  shows "rolling_mean 30 xs ! i
           = sum_list (map ((!) xs) [i - 29..<Suc i]) / real (min (Suc i) 30)"
proof -
  have b: "Suc i \<le> length xs" using assms by simp
  have s: "Suc i - 30 = i - 29" by simp
  have m: "Suc i - (i - 29) = min (Suc i) 30" by simp
  show ?thesis
    using assms
    by (simp add: rolling_mean_def Let_def window_as_map_nth [OF b] s m del: upt_Suc)
qed

subsection \<open>The columns in the words of the specification\<close>

lemma tmean_col_nth: "j < length rows \<Longrightarrow> tmean_col rows ! j = spec_tmean rows j"
  by (simp add: tmean_col_def spec_tmean_def)

lemma t30_nth:
  assumes "i < length rows"
  shows "rolling_mean 30 (tmean_col rows) ! i = spec_T30 rows i"
proof -
  have l: "i < length (tmean_col rows)" using assms by (simp add: tmean_col_def)
  have e: "map ((!) (tmean_col rows)) [i - 29..<Suc i] = map (spec_tmean rows) [i - 29..<Suc i]"
    using assms by (intro map_cong refl tmean_col_nth) auto
  show ?thesis
    unfolding rolling_mean_nth [OF l] spec_T30_def e ..
qed

lemma cgdd_nth:
  assumes "i < length rows"
  shows "groupby_cumsum (\<lambda>y. 0) (map c_year rows) (gdd_base0 (tmean_col rows)) ! i
           = spec_CGDD0 rows i"
proof -
  let ?g = "gdd_base0 (tmean_col rows)"
  have l: "i < length (map c_year rows)" "i < length ?g"
    using assms by (simp_all add: gdd_base0_def tmean_col_def)
  have f: "filter (\<lambda>j. map c_year rows ! j = map c_year rows ! i) [0..<Suc i]
             = filter (\<lambda>j. c_year (rows ! j) = c_year (rows ! i)) [0..<Suc i]"
    using assms by (intro filter_cong refl) auto
  have m: "map ((!) ?g) (filter (\<lambda>j. c_year (rows ! j) = c_year (rows ! i)) [0..<Suc i])
             = map (\<lambda>j. max (spec_tmean rows j) 0)
                 (filter (\<lambda>j. c_year (rows ! j) = c_year (rows ! i)) [0..<Suc i])"
  proof (intro map_cong refl)
    fix j assume "j \<in> set (filter (\<lambda>j. c_year (rows ! j) = c_year (rows ! i)) [0..<Suc i])"
    then have j: "j < length rows" using assms by auto
    then have "?g ! j = (if tmean_col rows ! j \<le> 0 then 0 else tmean_col rows ! j)"
      by (simp add: gdd_base0_def tmean_col_def)
    then show "?g ! j = max (spec_tmean rows j) 0"
      using tmean_col_nth [OF j] by (simp add: max_def)
  qed
  show ?thesis
    unfolding groupby_cumsum_nth [OF l] f m spec_CGDD0_def by (simp del: upt_Suc)
qed

lemma doy_average_of_column:
  assumes len: "length vs = length rows"
    and col: "\<And>i. i < length rows \<Longrightarrow> vs ! i = v i"
    and full: "c_doy ` set rows = {1..int K}" and d: "1 \<le> d" "d \<le> K"
  shows "groupby_mean (map c_doy rows) vs ! (d - 1) = spec_doy_average v rows (int d)"
proof -
  let ?ks = "map c_doy rows"
  have l: "length ?ks = length vs" using len by simp
  have s: "set ?ks = {1..int K}" using full by simp
  have f: "filter (\<lambda>i. ?ks ! i = int d) [0..<length ?ks] = days_with_doy rows (int d)"
    unfolding days_with_doy_def by (intro filter_cong) simp_all
  have m: "map ((!) vs) (days_with_doy rows (int d)) = map v (days_with_doy rows (int d))"
    by (intro map_cong refl col) (simp add: days_with_doy_def)
  show ?thesis
    unfolding groupby_mean_nth [OF l s d] f m spec_doy_average_def ..
qed

lemma insert_doy0_table:
  assumes "a \<noteq> []"
  shows "\<exists>b. insert_doy0 a = Inr b \<and> length b = length a + 1 \<and> b ! 0 = b ! 1
           \<and> (\<forall>d. 1 \<le> d \<longrightarrow> b ! d = a ! (d - 1))"
proof -
  obtain x xs where a: "a = x # xs" using assms by (cases a) auto
  have "\<forall>d. 1 \<le> d \<longrightarrow> (x # x # xs) ! d = (x # xs) ! (d - 1)"
    by (simp add: nth_Cons')
  then show ?thesis by (simp add: insert_doy0_def a)
qed

lemma long_term_normals_lengths:
  assumes "c_doy ` set rows = {1..int K}" and "1 \<le> K"
  shows "\<exists>T30LT CGDD0LT.
           long_term_normals rows = Inr (T30LT, CGDD0LT)
         \<and> length T30LT = K + 1 \<and> length CGDD0LT = K + 1"
proof -
  let ?ks = "map c_doy rows"
  let ?T = "groupby_mean ?ks (rolling_mean 30 (tmean_col rows))"
  let ?C = "groupby_mean ?ks
              (groupby_cumsum (\<lambda>y. 0) (map c_year rows) (gdd_base0 (tmean_col rows)))"
  have s: "set ?ks = {1..int K}" using assms(1) by simp
  have lT: "length ?T = K" and lC: "length ?C = K"
    using length_groupby_mean [OF s] by simp_all
  have "?T \<noteq> []" "?C \<noteq> []" using lT lC assms(2) by auto
  then obtain T30LT CGDD0LT where
    t: "insert_doy0 ?T = Inr T30LT" "length T30LT = length ?T + 1"
    and c: "insert_doy0 ?C = Inr CGDD0LT" "length CGDD0LT = length ?C + 1"
    using insert_doy0_table by meson
  have "long_term_normals rows = Inr (T30LT, CGDD0LT)"
    by (simp add: long_term_normals_def Let_def t(1) c(1))
  then show ?thesis using t(2) c(2) lT lC by simp
qed

text \<open>The averages of the example record, from the definitions in the words of the specification.\<close>

lemma two_year_values:
  "spec_doy_average (spec_T30 two_year_record) two_year_record 1 = 6"
  "spec_doy_average (spec_T30 two_year_record) two_year_record 2 = 11 / 2"
  "spec_doy_average (spec_CGDD0 two_year_record) two_year_record 1 = 7"
  "spec_doy_average (spec_CGDD0 two_year_record) two_year_record 2 = 21 / 2"
  by (simp_all add: spec_doy_average_def days_with_doy_def spec_T30_def spec_CGDD0_def
      spec_tmean_def two_year_record_def upt_conv_Cons numeral_eq_Suc)

section \<open>The claims\<close>

subsection \<open>C1: the rolling reference ET average\<close>




subsection \<open>C2: the reset of a standard crop\<close>

text \<open>
  C2 as stated fails on a day whose day of year equals \<open>trigger_doy + 199\<close>: with trigger
  day 1, \<open>lDoy = 300\<close> and day of year 200, the condition \<open>lDoy > trigger_doy + 199 >= doy\<close>
  of the claim holds, and the code resets nothing.
\<close>

theorem standard_reset_counterexample:
  "\<not> winter_reset_crop generic_crop
   \<and> lDoy (foo_zero\<lparr>cgdd := 50, lDoy := 300, in_season := True\<rparr>)
       > crop_gdd_trigger_doy generic_crop + 199
   \<and> crop_gdd_trigger_doy generic_crop + 199 \<ge> doy (DayData_init\<lparr>sdays := 200, doy := 200\<rparr>)
   \<and> reset_cgdd generic_crop (DayData_init\<lparr>sdays := 200, doy := 200\<rparr>)
        (foo_zero\<lparr>cgdd := 50, lDoy := 300, in_season := True\<rparr>)
      = foo_zero\<lparr>cgdd := 50, lDoy := 200, in_season := True\<rparr>"
  by (simp add: reset_cgdd_def winter_reset_crop_def generic_crop_def foo_zero_def
      DayData_init_def sublist_code prefix_code)

text \<open>
  C2, amended: for every standard (non-winter) crop and every day, the season reset
  (\<open>cgdd = 0\<close>, \<open>doy_start_cycle = 0\<close>, \<open>real_start\<close> and \<open>in_season\<close> false) fires exactly
  when \<open>lDoy > trigger_doy + 199 > today_doy\<close>, both comparisons strict, so not on a day
  whose day of year equals \<open>trigger_doy + 199\<close>; and in both the winter and the standard
  branch \<open>lDoy\<close> is set to \<open>today_doy\<close> whether or not the reset fired, which also holds
  of the state \<open>compute_crop_gdd\<close> returns.
\<close>

theorem standard_reset_strict:
  "lDoy (reset_cgdd crop foo_day foo) = doy foo_day
   \<and> (1 \<le> sdays foo_day \<longrightarrow>
        (\<exists>foo' fd'. compute_crop_gdd crop foo foo_day = Inr (foo', fd')
           \<and> lDoy foo' = doy foo_day))
   \<and> (\<not> winter_reset_crop crop \<longrightarrow>
        (lDoy foo > crop_gdd_trigger_doy crop + 199
           \<and> crop_gdd_trigger_doy crop + 199 > doy foo_day \<longrightarrow>
         reset_cgdd crop foo_day foo
           = foo\<lparr>cgdd := 0, doy_start_cycle := 0, real_start := False, in_season := False,
                 lDoy := doy foo_day\<rparr>)
        \<and> (\<not> (lDoy foo > crop_gdd_trigger_doy crop + 199
               \<and> crop_gdd_trigger_doy crop + 199 > doy foo_day) \<longrightarrow>
           reset_cgdd crop foo_day foo = foo\<lparr>lDoy := doy foo_day\<rparr>))"
proof -
  have a: "lDoy (reset_cgdd crop foo_day foo) = doy foo_day"
    by (simp add: reset_cgdd_def)
  have b: "\<exists>foo' fd'. compute_crop_gdd crop foo foo_day = Inr (foo', fd')
             \<and> lDoy foo' = doy foo_day" if h: "1 \<le> sdays foo_day"
  proof -
    obtain foo1 fd1 where u: "update_etref_30 foo foo_day = Inr (foo1, fd1)"
      using update_etref_30_Inr [OF h] by blast
    have "doy fd1 = doy foo_day" using update_etref_30_fields(9) [OF u] .
    then show ?thesis
      by (simp add: compute_crop_gdd_def u lDoy_update_cgdd reset_cgdd_def)
  qed
  have c: "reset_cgdd crop foo_day foo
           = foo\<lparr>cgdd := 0, doy_start_cycle := 0, real_start := False, in_season := False,
                 lDoy := doy foo_day\<rparr>"
    if "\<not> winter_reset_crop crop" "lDoy foo > crop_gdd_trigger_doy crop + 199"
       "crop_gdd_trigger_doy crop + 199 > doy foo_day"
    using that by (simp add: reset_cgdd_def season_reset_def)
  have d: "reset_cgdd crop foo_day foo = foo\<lparr>lDoy := doy foo_day\<rparr>"
    if "\<not> winter_reset_crop crop"
       "\<not> (lDoy foo > crop_gdd_trigger_doy crop + 199
           \<and> crop_gdd_trigger_doy crop + 199 > doy foo_day)"
    using that by (auto simp: reset_cgdd_def)
  show ?thesis using a b c d by blast
qed

theorem standard_reset_strict_witness:
  "\<not> winter_reset_crop generic_crop
   \<and> reset_cgdd generic_crop (DayData_init\<lparr>sdays := 1, doy := 1\<rparr>)
        (foo_zero\<lparr>cgdd := 50, lDoy := 365, in_season := True\<rparr>)
      = foo_zero\<lparr>lDoy := 1\<rparr>
   \<and> reset_cgdd generic_crop (DayData_init\<lparr>sdays := 2, doy := 2\<rparr>)
        (foo_zero\<lparr>cgdd := 50, lDoy := 1, in_season := True\<rparr>)
      = foo_zero\<lparr>cgdd := 50, lDoy := 2, in_season := True\<rparr>
   \<and> (\<exists>foo' fd'. compute_crop_gdd generic_crop
          (foo_zero\<lparr>cgdd := 50, lDoy := 365, in_season := True\<rparr>)
          (DayData_init\<lparr>sdays := 1, doy := 1\<rparr>) = Inr (foo', fd') \<and> lDoy foo' = 1)"
proof -
  have w: "\<not> winter_reset_crop generic_crop"
    by (simp add: winter_reset_crop_def generic_crop_def sublist_code prefix_code)
  show ?thesis
    using w
      standard_reset_strict [of generic_crop "DayData_init\<lparr>sdays := 1, doy := 1\<rparr>"
        "foo_zero\<lparr>cgdd := 50, lDoy := 365, in_season := True\<rparr>"]
      standard_reset_strict [of generic_crop "DayData_init\<lparr>sdays := 2, doy := 2\<rparr>"
        "foo_zero\<lparr>cgdd := 50, lDoy := 1, in_season := True\<rparr>"]
    by (simp add: generic_crop_def foo_zero_def)
qed

subsection \<open>C3: the corn clamp example\<close>

text \<open>
  C3 as stated fails. At \<open>tmax = 35\<close>, \<open>tmin = -5\<close>, \<open>tbase = -8\<close> line 120 finds
  \<open>tmin < -tbase\<close>, that is \<open>-5 < 8\<close>, and sets \<open>tminl\<close> to 8: \<open>tminl\<close> is not \<open>-5\<close>,
  \<open>tmeanl\<close> is not 12.5 and the increment of \<open>cgdd\<close> is not 4.5.
\<close>

theorem corn_clamp_counterexample:
  "tminl corn_crop (DayData_init\<lparr>tmax := 35, tmin := - 5\<rparr>) \<noteq> - 5
   \<and> tmeanl corn_crop (DayData_init\<lparr>tmax := 35, tmin := - 5\<rparr>) \<noteq> 12.5
   \<and> cgdd (update_cgdd corn_crop (DayData_init\<lparr>tmax := 35, tmin := - 5\<rparr>) foo_zero)
       - cgdd foo_zero \<noteq> 4.5"
  by (simp add: tminl_def tmaxl_def tmeanl_def update_cgdd_def corn_crop_def DayData_init_def foo_zero_def winter_grain_def)

text \<open>
  C3, amended: for the corn policy (a crop with a curve that is not a winter grain, with
  \<open>tbase < 0\<close>), on the input \<open>tmax = 35\<close>, \<open>tmin = -5\<close>, \<open>tbase = -8\<close> the daily update
  clamps \<open>tmaxl\<close> to 30 and raises \<open>tminl\<close> to the true base 8, so that \<open>tmeanl = 19\<close> and
  \<open>cgdd\<close> grows by exactly \<open>19 + (-8) = 11\<close>.
\<close>

theorem corn_clamp_example:
  assumes "curve_number crop > 0" and "\<not> winter_grain crop" and "tbase crop = - 8"
    and "tmax foo_day = 35" and "tmin foo_day = - 5"
  shows "tmaxl crop foo_day = 30 \<and> tminl crop foo_day = 8 \<and> tmeanl crop foo_day = 19
         \<and> cgdd (update_cgdd crop foo_day foo) = cgdd foo + 11"
  using assms by (simp add: tminl_def tmaxl_def tmeanl_def update_cgdd_def)

theorem corn_clamp_example_witness:
  "curve_number corn_crop > 0 \<and> \<not> winter_grain corn_crop \<and> tbase corn_crop = - 8
   \<and> tmaxl corn_crop (DayData_init\<lparr>tmax := 35, tmin := - 5\<rparr>) = 30
   \<and> tminl corn_crop (DayData_init\<lparr>tmax := 35, tmin := - 5\<rparr>) = 8
   \<and> tmeanl corn_crop (DayData_init\<lparr>tmax := 35, tmin := - 5\<rparr>) = 19
   \<and> cgdd (update_cgdd corn_crop (DayData_init\<lparr>tmax := 35, tmin := - 5\<rparr>) foo_zero) = 11"
proof -
  have h: "curve_number corn_crop > 0" "\<not> winter_grain corn_crop" "tbase corn_crop = - 8"
    by (simp_all add: corn_crop_def winter_grain_def)
  have d: "tmax (DayData_init\<lparr>tmax := 35, tmin := - 5\<rparr>) = 35"
          "tmin (DayData_init\<lparr>tmax := 35, tmin := - 5\<rparr>) = - 5" by simp_all
  show ?thesis
    using h corn_clamp_example [OF h d, of foo_zero] by (simp add: foo_zero_def)
qed

subsection \<open>C4: CGDD and GDD are not negative\<close>

text \<open>
  C4 as stated fails for a corn crop whose true base \<open>-tbase\<close> is above the cap of 30: the
  cap is applied and the floor \<open>-tbase\<close> is not, as the day is warmer than the base. With
  \<open>tbase = -40\<close> and \<open>tmax = tmin = 45\<close> the update takes \<open>cgdd\<close> from 0 to \<open>-10\<close>.
\<close>

theorem cgdd_negative_counterexample:
  "0 \<le> cgdd foo_zero \<and> 0 \<le> gdd foo_zero
   \<and> cgdd (update_cgdd (corn_crop\<lparr>tbase := - 40\<rparr>)
             (DayData_init\<lparr>tmean := 45, tmin := 45, tmax := 45\<rparr>) foo_zero) = - 10"
  by (simp add: update_cgdd_def tmeanl_def tmaxl_def tminl_def winter_grain_def corn_crop_def
      foo_zero_def DayData_init_def)

text \<open>
  C4, amended: for every crop whose \<open>tbase\<close> is at least \<open>-30\<close> (a corn crop whose true
  base is at most the cap of 30) and every day, if \<open>cgdd\<close> is not negative before the day,
  as at the start of a run, then \<open>compute_crop_gdd\<close> returns and \<open>cgdd >= 0\<close> holds after
  the update of the day; and \<open>gdd >= 0\<close> holds after it whenever the policy applied that
  day defines \<open>gdd\<close> (winter grain; or the generic policy on a day with \<open>tmean > tbase\<close>),
  and also when it was not negative before.
\<close>

theorem cgdd_gdd_nonnegative:
  assumes "0 \<le> cgdd foo" and "- 30 \<le> tbase crop" and "1 \<le> sdays foo_day"
  shows "\<exists>foo' fd'. compute_crop_gdd crop foo foo_day = Inr (foo', fd')
           \<and> 0 \<le> cgdd foo'
           \<and> (0 \<le> gdd foo
               \<or> (curve_number crop > 0
                  \<and> (winter_grain crop \<or> (0 \<le> tbase crop \<and> tbase crop < tmean foo_day)))
              \<longrightarrow> 0 \<le> gdd foo')"
proof -
  obtain foo1 fd1 where u: "update_etref_30 foo foo_day = Inr (foo1, fd1)"
    and c: "compute_crop_gdd crop foo foo_day
              = Inr (update_cgdd crop fd1 (reset_cgdd crop fd1 foo1), fd1)"
    using compute_crop_gdd_Inr [OF assms(3)] by blast
  note f = update_etref_30_fields [OF u]
  let ?r = "reset_cgdd crop fd1 foo1"
  have k: "0 \<le> cgdd ?r" using assms(1) by (simp add: cgdd_reset_cgdd f)
  have g: "gdd ?r = gdd foo" "tmean fd1 = tmean foo_day" by (simp_all add: cgdd_reset_cgdd f)
  have "0 \<le> cgdd (update_cgdd crop fd1 ?r)"
    using update_cgdd_nonneg(1) [OF k assms(2)] .
  moreover have "0 \<le> gdd (update_cgdd crop fd1 ?r)"
    if "0 \<le> gdd foo
         \<or> (curve_number crop > 0
            \<and> (winter_grain crop \<or> (0 \<le> tbase crop \<and> tbase crop < tmean foo_day)))"
    using update_cgdd_nonneg(2) [OF k assms(2), of fd1] that g by simp
  ultimately show ?thesis using c by blast
qed

theorem cgdd_gdd_nonnegative_witness:
  "0 \<le> cgdd foo_zero \<and> - 30 \<le> tbase corn_crop
   \<and> (\<exists>foo' fd'. compute_crop_gdd corn_crop foo_zero
                    (DayData_init\<lparr>sdays := 1, doy := 1, tmean := 15, tmin := - 5, tmax := 35\<rparr>)
                  = Inr (foo', fd') \<and> 0 \<le> cgdd foo' \<and> 0 \<le> gdd foo')
   \<and> 0 < curve_number generic_crop \<and> 0 \<le> tbase generic_crop
   \<and> (\<exists>foo' fd'. compute_crop_gdd generic_crop (foo_zero\<lparr>gdd := - 1\<rparr>)
                    (DayData_init\<lparr>sdays := 1, doy := 1, tmean := 15, tmin := 10, tmax := 20\<rparr>)
                  = Inr (foo', fd') \<and> 0 \<le> cgdd foo' \<and> 0 \<le> gdd foo')"
proof -
  have h: "0 \<le> cgdd foo_zero" "- 30 \<le> tbase corn_crop"
    "1 \<le> sdays (DayData_init\<lparr>sdays := 1, doy := 1, tmean := 15, tmin := - 5, tmax := 35\<rparr>)"
    "0 \<le> gdd foo_zero"
    by (simp_all add: foo_zero_def corn_crop_def)
  have g: "0 \<le> cgdd (foo_zero\<lparr>gdd := - 1\<rparr>)" "- 30 \<le> tbase generic_crop"
    "1 \<le> sdays (DayData_init\<lparr>sdays := 1, doy := 1, tmean := 15, tmin := 10, tmax := 20\<rparr>)"
    "0 < curve_number generic_crop" "0 \<le> tbase generic_crop" "tbase generic_crop < 15"
    by (simp_all add: foo_zero_def generic_crop_def)
  show ?thesis
    using h(1,2,4) g(4,5,6) cgdd_gdd_nonnegative [OF h(1,2,3)] cgdd_gdd_nonnegative [OF g(1,2,3)]
    by simp
qed

subsection \<open>C5: cold stress penalties of winter grain\<close>

text \<open>
  C5 as stated fails when day D+1 is the reset day of the crop: the reset of lines 36 to 38
  runs before the penalty is subtracted. For a winter wheat with trigger day 12, \<open>cgdd =
  100\<close> and \<open>tmin = -26\<close> without snow on day 11 schedule a penalty of 10, and day 12 takes
  \<open>cgdd\<close> from 100 to 0, not to 90.
\<close>

theorem winter_grain_reset_day_counterexample:
  "winter_grain (winter_wheat_crop\<lparr>crop_gdd_trigger_doy := 12\<rparr>)
   \<and> cgdd (fst (projr (compute_crop_gdd (winter_wheat_crop\<lparr>crop_gdd_trigger_doy := 12\<rparr>)
        (foo_zero\<lparr>cgdd := 100, lDoy := 10\<rparr>)
        (DayData_init\<lparr>sdays := 1, doy := 11, tmean := - 20, tmin := - 26\<rparr>)))) = 100
   \<and> cgdd_penalty (fst (projr (compute_crop_gdd (winter_wheat_crop\<lparr>crop_gdd_trigger_doy := 12\<rparr>)
        (foo_zero\<lparr>cgdd := 100, lDoy := 10\<rparr>)
        (DayData_init\<lparr>sdays := 1, doy := 11, tmean := - 20, tmin := - 26\<rparr>)))) = 10
   \<and> gdd (fst (projr (compute_crop_gdd (winter_wheat_crop\<lparr>crop_gdd_trigger_doy := 12\<rparr>)
        (fst (projr (compute_crop_gdd (winter_wheat_crop\<lparr>crop_gdd_trigger_doy := 12\<rparr>)
           (foo_zero\<lparr>cgdd := 100, lDoy := 10\<rparr>)
           (DayData_init\<lparr>sdays := 1, doy := 11, tmean := - 20, tmin := - 26\<rparr>))))
        (DayData_init\<lparr>sdays := 2, doy := 12, tmean := 3, tmin := 0\<rparr>)))) = 0
   \<and> cgdd (fst (projr (compute_crop_gdd (winter_wheat_crop\<lparr>crop_gdd_trigger_doy := 12\<rparr>)
        (fst (projr (compute_crop_gdd (winter_wheat_crop\<lparr>crop_gdd_trigger_doy := 12\<rparr>)
           (foo_zero\<lparr>cgdd := 100, lDoy := 10\<rparr>)
           (DayData_init\<lparr>sdays := 1, doy := 11, tmean := - 20, tmin := - 26\<rparr>))))
        (DayData_init\<lparr>sdays := 2, doy := 12, tmean := 3, tmin := 0\<rparr>)))) = 0"
  by (simp add: compute_crop_gdd_def update_etref_30_def update_cgdd_def reset_cgdd_def
      season_reset_def winter_grain_gdd_def winter_grain_base_gdd_def winter_grain_def
      winter_reset_crop_def winter_wheat_crop_def foo_zero_def DayData_init_def Let_def)

text \<open>
  C5, amended: for a winter grain crop, the penalties computed on day D are applied on day
  D+1 and then cleared. Day D schedules \<open>penalty = 5\<close> if \<open>tmin < -10\<close>, else 0, and
  \<open>cgdd_penalty = 0.10 * cgdd\<close> (the \<open>cgdd\<close> after the update of day D) if \<open>tmin < -25\<close>
  and \<open>snow_depth <= 0\<close>, else 0. Day D+1 subtracts the penalty from its \<open>gdd\<close> before
  flooring it at 0, and subtracts \<open>cgdd_penalty\<close> from \<open>cgdd\<close> (from 0 if day D+1 is the
  reset day of the crop) before flooring that at 0; the penalties left after day D+1
  depend on the weather of day D+1 only. In particular \<open>cgdd = 100\<close>, \<open>tmin = -26\<close>,
  \<open>snow_depth = 0\<close> on day D schedule a penalty of exactly 10, and when day D+1 is not
  the reset day of the crop they take exactly 10 off \<open>cgdd\<close> on day D+1, before the new
  \<open>gdd\<close> is added. The two days share the object \<open>foo_day\<close>, hence the array of day D in
  the input of day D+1.
\<close>

theorem winter_grain_penalties_next_day:
  assumes "winter_grain crop" and "curve_number crop > 0"
    and "1 \<le> sdays day_D" and "1 \<le> sdays day_D1"
  shows "\<exists>foo1 fd1 foo2 fd2.
           compute_crop_gdd crop foo day_D = Inr (foo1, fd1)
         \<and> compute_crop_gdd crop foo1 (day_D1\<lparr>etref_array := etref_array fd1\<rparr>) = Inr (foo2, fd2)
         \<and> penalty foo1 = (if tmin day_D < - 10 then 5 else 0)
         \<and> cgdd_penalty foo1
             = (if tmin day_D < - 25 \<and> snow_depth day_D \<le> 0 then 0.10 * cgdd foo1 else 0)
         \<and> gdd foo2 = max (winter_grain_base_gdd crop day_D1 - penalty foo1) 0
         \<and> cgdd foo2
             = max 0 ((if reset_fires crop foo1 day_D1 then 0 else cgdd foo1)
                      + gdd foo2 - cgdd_penalty foo1)
         \<and> penalty foo2 = (if tmin day_D1 < - 10 then 5 else 0)
         \<and> cgdd_penalty foo2
             = (if tmin day_D1 < - 25 \<and> snow_depth day_D1 \<le> 0 then 0.10 * cgdd foo2 else 0)
         \<and> (cgdd foo1 = 100 \<and> tmin day_D = - 26 \<and> snow_depth day_D = 0
            \<longrightarrow> cgdd_penalty foo1 = 10
                \<and> (\<not> reset_fires crop foo1 day_D1 \<longrightarrow> cgdd foo2 = (100 - 10) + gdd foo2))"
proof -
  obtain foo1 fd1 where c1: "compute_crop_gdd crop foo day_D = Inr (foo1, fd1)"
    using compute_crop_gdd_Inr [OF assms(3)] by blast
  let ?d = "day_D1\<lparr>etref_array := etref_array fd1\<rparr>"
  have "1 \<le> sdays ?d" using assms(4) by simp
  then obtain foo2 fd2 where c2: "compute_crop_gdd crop foo1 ?d = Inr (foo2, fd2)"
    using compute_crop_gdd_Inr by blast
  note a = winter_day [OF assms(1,2) c1]
  note b = winter_day [OF assms(1,2) c2]
  have rf: "reset_fires crop foo1 ?d = reset_fires crop foo1 day_D1"
    by (rule reset_fires_cong) simp_all
  have bg: "winter_grain_base_gdd crop ?d = winter_grain_base_gdd crop day_D1"
    by (rule winter_grain_base_gdd_cong) simp_all
  have g2: "gdd foo2 = max (winter_grain_base_gdd crop day_D1 - penalty foo1) 0"
    using b(1) bg by simp
  have k2: "cgdd foo2 = max 0 ((if reset_fires crop foo1 day_D1 then 0 else cgdd foo1)
                      + gdd foo2 - cgdd_penalty foo1)"
    using b(2) rf by simp
  have p2: "penalty foo2 = (if tmin day_D1 < - 10 then 5 else 0)"
    using b(3) by simp
  have q2: "cgdd_penalty foo2
             = (if tmin day_D1 < - 25 \<and> snow_depth day_D1 \<le> 0 then 0.10 * cgdd foo2 else 0)"
    using b(4) by simp
  have ex: "cgdd_penalty foo1 = 10
            \<and> (\<not> reset_fires crop foo1 day_D1 \<longrightarrow> cgdd foo2 = (100 - 10) + gdd foo2)"
    if h: "cgdd foo1 = 100" "tmin day_D = - 26" "snow_depth day_D = 0"
  proof -
    have cp: "cgdd_penalty foo1 = 10" using a(4) h by simp
    have "0 \<le> gdd foo2" using g2 by simp
    then show ?thesis using k2 cp h by simp
  qed
  show ?thesis
    using c1 c2 a(3) a(4) g2 k2 p2 q2 ex by blast
qed

theorem winter_grain_penalties_next_day_witness:
  "winter_grain winter_wheat_crop \<and> 0 < curve_number winter_wheat_crop
   \<and> (\<exists>foo1 fd1 foo2 fd2.
         compute_crop_gdd winter_wheat_crop (foo_zero\<lparr>cgdd := 100, lDoy := 10\<rparr>)
           (DayData_init\<lparr>sdays := 1, doy := 11, tmean := - 20, tmin := - 26\<rparr>) = Inr (foo1, fd1)
       \<and> compute_crop_gdd winter_wheat_crop foo1
           (DayData_init\<lparr>sdays := 2, doy := 12, tmean := 3, tmin := 0,
                         etref_array := etref_array fd1\<rparr>) = Inr (foo2, fd2)
       \<and> cgdd foo1 = 100 \<and> penalty foo1 = 5 \<and> cgdd_penalty foo1 = 10
       \<and> gdd foo2 = 0 \<and> cgdd foo2 = 90 \<and> penalty foo2 = 0 \<and> cgdd_penalty foo2 = 0)"
proof -
  let ?c = winter_wheat_crop
  let ?f = "foo_zero\<lparr>cgdd := 100, lDoy := 10\<rparr>"
  let ?D = "DayData_init\<lparr>sdays := 1, doy := 11, tmean := - 20, tmin := - 26\<rparr>"
  let ?E = "DayData_init\<lparr>sdays := 2, doy := 12, tmean := 3, tmin := 0\<rparr>"
  have h: "winter_grain ?c" "0 < curve_number ?c" "1 \<le> sdays ?D" "1 \<le> sdays ?E"
    by (simp_all add: winter_grain_def winter_wheat_crop_def)
  have v: "cgdd (fst (projr (compute_crop_gdd ?c ?f ?D))) = 100"
    by (simp add: compute_crop_gdd_def update_etref_30_def update_cgdd_def reset_cgdd_def
        winter_grain_gdd_def winter_grain_base_gdd_def winter_grain_def winter_reset_crop_def
        winter_wheat_crop_def foo_zero_def DayData_init_def Let_def)
  have b: "winter_grain_base_gdd ?c ?E = 3"
    by (simp add: winter_grain_base_gdd_def winter_wheat_crop_def)
  have d: "tmin ?D = - 26" "snow_depth ?D = 0" "tmin ?E = 0"
    by (simp_all add: DayData_init_def)
  obtain foo1 fd1 foo2 fd2 where
    "compute_crop_gdd ?c ?f ?D = Inr (foo1, fd1)"
    "compute_crop_gdd ?c foo1 (?E\<lparr>etref_array := etref_array fd1\<rparr>) = Inr (foo2, fd2)"
    "penalty foo1 = (if tmin ?D < - 10 then 5 else 0)"
    "cgdd_penalty foo1
             = (if tmin ?D < - 25 \<and> snow_depth ?D \<le> 0 then 0.10 * cgdd foo1 else 0)"
    "gdd foo2 = max (winter_grain_base_gdd ?c ?E - penalty foo1) 0"
    "cgdd foo2
             = max 0 ((if reset_fires ?c foo1 ?E then 0 else cgdd foo1)
                      + gdd foo2 - cgdd_penalty foo1)"
    "penalty foo2 = (if tmin ?E < - 10 then 5 else 0)"
    "cgdd_penalty foo2
             = (if tmin ?E < - 25 \<and> snow_depth ?E \<le> 0 then 0.10 * cgdd foo2 else 0)"
    "(cgdd foo1 = 100 \<and> tmin ?D = - 26 \<and> snow_depth ?D = 0
            \<longrightarrow> cgdd_penalty foo1 = 10
                \<and> (\<not> reset_fires ?c foo1 ?E \<longrightarrow> cgdd foo2 = (100 - 10) + gdd foo2))"
    using winter_grain_penalties_next_day [OF h, of "?f"] by blast
  note r = this
  have c1: "cgdd foo1 = 100" using v r(1) by simp
  have l1: "lDoy foo1 = 11"
    using compute_crop_gdd_lDoy [OF r(1)] by simp
  have nr: "\<not> reset_fires ?c foo1 ?E"
    by (simp add: reset_fires_def l1 winter_reset_crop_def winter_wheat_crop_def)
  have p1: "penalty foo1 = 5" using r(3) d by simp
  have q1: "cgdd_penalty foo1 = 10" using r(4) d c1 by simp
  have g2: "gdd foo2 = 0" using r(5) b p1 by simp
  have k2: "cgdd foo2 = 90" using r(9) c1 d nr g2 by simp
  have p2: "penalty foo2 = 0" using r(7) d by simp
  have q2: "cgdd_penalty foo2 = 0" using r(8) d by simp
  show ?thesis
    using h(1,2) r(1) r(2) c1 p1 q1 g2 k2 p2 q2 by (simp del: One_nat_def)
qed

subsection \<open>C6: the reset on the trigger day\<close>




subsection \<open>C7: the mask of valid dates\<close>

text \<open>
  C7: for every date series with more than one entry, building the mask of valid dates with
  \<open>and\<close> raises (numpy refuses the truth value of an array with more than one element):
  the mask is not the elementwise conjunction of the two comparisons, and the day loop
  ends in the error before it processes any day.
\<close>

theorem date_mask_raises:
  assumes "1 < length rows"
  shows "date_mask (map r_Dates rows) start_dt end_dt = Inl ValueError
         \<and> date_mask (map r_Dates rows) start_dt end_dt
             \<noteq> Inr (elementwise_mask (map r_Dates rows) start_dt end_dt)
         \<and> crop_day_loop aFNEs compute_crop_et refet_type crop foo rows start_dt end_dt = Inl ValueError"
proof -
  have "np_bool (map (\<lambda>d. d \<ge> start_dt) (map r_Dates rows)) = Inl ValueError"
    using assms by (intro np_bool_many) simp
  then have m: "date_mask (map r_Dates rows) start_dt end_dt = Inl ValueError"
    by (simp add: date_mask_def Let_def)
  then show ?thesis by (simp add: crop_day_loop_def)
qed

theorem date_mask_raises_witness:
  "1 < length [example_row, example_row\<lparr>r_Dates := 1, r_doy := 2\<rparr>]
   \<and> date_mask (map r_Dates [example_row, example_row\<lparr>r_Dates := 1, r_doy := 2\<rparr>]) 0 1
       = Inl ValueError
   \<and> elementwise_mask (map r_Dates [example_row, example_row\<lparr>r_Dates := 1, r_doy := 2\<rparr>]) 0 1
       = [True, True]
   \<and> crop_day_loop (\<lambda>t. t + 200) compute_crop_gdd 0 generic_crop foo_zero
        [example_row, example_row\<lparr>r_Dates := 1, r_doy := 2\<rparr>] 0 1 = Inl ValueError"
proof -
  have l: "1 < length [example_row, example_row\<lparr>r_Dates := 1, r_doy := 2\<rparr>]" by simp
  show ?thesis
    using l date_mask_raises [OF l, of 0 1 "\<lambda>t. t + 200" compute_crop_gdd 0 generic_crop foo_zero]
    by (simp add: elementwise_mask_def example_row_def)
qed

subsection \<open>C8: the snow accumulation\<close>

text \<open>
  C8 asks for a snow accumulation that starts at 0. The code never assigns \<open>snow_accum\<close>
  before the loop adds to it: on a one day record with 10 mm of snowfall the estimate, and
  with it \<open>process_climate\<close>, ends in an UnboundLocalError.
\<close>

theorem snow_accum_unbound:
  "estimate_snow_depth
     [\<lparr>c_year = 2000, c_doy = 1, c_tmax = - 5, c_tmin = - 10, c_snow = 10, c_snow_depth = 100\<rparr>]
     = Inl UnboundLocalError
   \<and> process_climate
     [\<lparr>c_year = 2000, c_doy = 1, c_tmax = - 5, c_tmin = - 10, c_snow = 10, c_snow_depth = 100\<rparr>]
     = Inl UnboundLocalError"
  by (simp add: estimate_snow_depth_def process_climate_def long_term_normals_def
      insert_doy0_def groupby_mean_def rolling_mean_def tmean_col_def gdd_base0_def Let_def)

subsection \<open>C9: the long term normals\<close>

text \<open>
  C9 as stated fails on the length of the tables: a groupby over the day of year keeps day
  366, so the record of one leap year gives tables of 367 entries, indexed \<open>0..366\<close>.
\<close>

theorem leap_year_counterexample:
  "length leap_year_record = 366
   \<and> \<not> isl (long_term_normals leap_year_record)
   \<and> length (fst (projr (long_term_normals leap_year_record))) = 367
   \<and> length (snd (projr (long_term_normals leap_year_record))) = 367"
proof -
  have d: "c_doy ` set leap_year_record = {1..int 366}"
    by (simp add: leap_year_record_def image_image)
  obtain T30LT CGDD0LT where
    "long_term_normals leap_year_record = Inr (T30LT, CGDD0LT)"
    "length T30LT = 366 + 1" "length CGDD0LT = 366 + 1"
    using long_term_normals_lengths [OF d] by auto
  then show ?thesis by (simp add: leap_year_record_def)
qed

text \<open>
  C9, amended: the two tables hold one computed value per distinct day of year of the
  record, and in front of them, at index 0, a copy of the first. For a record whose days of
  year are exactly \<open>1..K\<close> (\<open>K = 366\<close> once the record contains the last day of a leap year,
  \<open>K = 365\<close> for whole years none of which is a leap year) they are indexed \<open>0..K\<close>, index 0
  holds the value of day 1, and for \<open>1 <= doy <= K\<close>: \<open>T30LT[doy]\<close> is the average, over all
  days of the record with that day of year, of the trailing 30 day mean of \<open>tmean\<close> (over
  the days there are at the start of the record), and \<open>CGDD0LT[doy]\<close> is the average over
  the same days of the base 0 growing degree days accumulated within the calendar year.
\<close>

theorem long_term_normals_by_doy:
  assumes "c_doy ` set rows = {1..int K}" and "1 \<le> K"
  shows "\<exists>T30LT CGDD0LT.
           long_term_normals rows = Inr (T30LT, CGDD0LT)
         \<and> length T30LT = K + 1 \<and> length CGDD0LT = K + 1
         \<and> T30LT ! 0 = T30LT ! 1 \<and> CGDD0LT ! 0 = CGDD0LT ! 1
         \<and> (\<forall>d. 1 \<le> d \<and> d \<le> K \<longrightarrow>
              T30LT ! d = spec_doy_average (spec_T30 rows) rows (int d)
              \<and> CGDD0LT ! d = spec_doy_average (spec_CGDD0 rows) rows (int d))"
proof -
  let ?ks = "map c_doy rows"
  let ?t30 = "rolling_mean 30 (tmean_col rows)"
  let ?cg = "groupby_cumsum (\<lambda>y. 0) (map c_year rows) (gdd_base0 (tmean_col rows))"
  let ?T = "groupby_mean ?ks ?t30"
  let ?C = "groupby_mean ?ks ?cg"
  have s: "set ?ks = {1..int K}" using assms(1) by simp
  have lT: "length ?T = K" and lC: "length ?C = K"
    using length_groupby_mean [OF s] by simp_all
  have "?T \<noteq> []" "?C \<noteq> []" using lT lC assms(2) by auto
  then obtain T30LT CGDD0LT where
    t: "insert_doy0 ?T = Inr T30LT" "length T30LT = length ?T + 1" "T30LT ! 0 = T30LT ! 1"
       "\<forall>d. 1 \<le> d \<longrightarrow> T30LT ! d = ?T ! (d - 1)"
    and c: "insert_doy0 ?C = Inr CGDD0LT" "length CGDD0LT = length ?C + 1"
       "CGDD0LT ! 0 = CGDD0LT ! 1" "\<forall>d. 1 \<le> d \<longrightarrow> CGDD0LT ! d = ?C ! (d - 1)"
    using insert_doy0_table by meson
  have r: "long_term_normals rows = Inr (T30LT, CGDD0LT)"
    by (simp add: long_term_normals_def Let_def t(1) c(1))
  have l30: "length ?t30 = length rows" by (simp add: rolling_mean_def tmean_col_def)
  have lcg: "length ?cg = length rows"
    by (simp add: length_groupby_cumsum gdd_base0_def tmean_col_def)
  have v: "T30LT ! d = spec_doy_average (spec_T30 rows) rows (int d)
           \<and> CGDD0LT ! d = spec_doy_average (spec_CGDD0 rows) rows (int d)"
    if d: "1 \<le> d \<and> d \<le> K" for d
  proof -
    have d1: "1 \<le> d" and d2: "d \<le> K" using d by simp_all
    have "?T ! (d - 1) = spec_doy_average (spec_T30 rows) rows (int d)"
      using doy_average_of_column [OF l30 t30_nth assms(1) d1 d2] .
    moreover have "?C ! (d - 1) = spec_doy_average (spec_CGDD0 rows) rows (int d)"
      using doy_average_of_column [OF lcg cgdd_nth assms(1) d1 d2] .
    ultimately show ?thesis using t(4) c(4) d1 by simp
  qed
  show ?thesis
    using r t(2,3) c(2,3) lT lC v by auto
qed

theorem long_term_normals_by_doy_witness:
  "\<exists>T30LT CGDD0LT.
     long_term_normals two_year_record = Inr (T30LT, CGDD0LT)
     \<and> length T30LT = 3 \<and> length CGDD0LT = 3
     \<and> T30LT ! 0 = 6 \<and> T30LT ! 1 = 6 \<and> T30LT ! 2 = 11 / 2
     \<and> CGDD0LT ! 0 = 7 \<and> CGDD0LT ! 1 = 7 \<and> CGDD0LT ! 2 = 21 / 2"
proof -
  have d: "c_doy ` set two_year_record = {1..int 2}"
    by (auto simp: two_year_record_def)
  have k: "(1::nat) \<le> 2" by simp
  obtain T30LT CGDD0LT where r:
    "long_term_normals two_year_record = Inr (T30LT, CGDD0LT)"
    "length T30LT = 2 + 1" "length CGDD0LT = 2 + 1"
    "T30LT ! 0 = T30LT ! 1" "CGDD0LT ! 0 = CGDD0LT ! 1"
    "\<forall>d. 1 \<le> d \<and> d \<le> 2 \<longrightarrow>
        T30LT ! d = spec_doy_average (spec_T30 two_year_record) two_year_record (int d)
        \<and> CGDD0LT ! d = spec_doy_average (spec_CGDD0 two_year_record) two_year_record (int d)"
    using long_term_normals_by_doy [OF d k] by blast
  have "T30LT ! 1 = 6" "CGDD0LT ! 1 = 7"
    using r(6) [rule_format, of 1] two_year_values by simp_all
  moreover have "T30LT ! 2 = 11 / 2" "CGDD0LT ! 2 = 21 / 2"
    using r(6) [rule_format, of 2] two_year_values by simp_all
  ultimately show ?thesis using r(1-5) by simp
qed

subsection \<open>C10: minimum relative humidity\<close>

text \<open>
  C10: on every day the loop computes \<open>rh_min = min(es(tdew) / es(tmax) * 100, 100)\<close> from
  the dewpoint and the original maximum temperature of the reference ET data (not the
  adjusted \<open>tmax\<close> of the climate arrays), and hands it to the ET computation of the day;
  if either input is below \<open>-90\<close> the value is 30 and computing it raises nothing,
  whatever \<open>es\<close> is. The vapour pressure \<open>es\<close> is \<open>util.aFNEs\<close>, a parameter here; a
  saturation vapour pressure is positive, and the quotient needs it to be non-zero at the
  maximum temperature.
\<close>

theorem rh_min_from_dewpoint:
  "(r_TDew row < - 90 \<or> r_TMax row < - 90 \<longrightarrow>
      compute_rh_min aFNEs (set_day_data refet_type i row foo_day)
        = Inr ((set_day_data refet_type i row foo_day)\<lparr>rh_min := 30\<rparr>)
      \<and> day_step aFNEs compute_crop_et refet_type crop i row (foo, foo_day)
          = compute_crop_et crop foo ((set_day_data refet_type i row foo_day)\<lparr>rh_min := 30\<rparr>))
   \<and> (\<not> (r_TDew row < - 90 \<or> r_TMax row < - 90) \<and> aFNEs (r_TMax row) \<noteq> 0 \<longrightarrow>
      compute_rh_min aFNEs (set_day_data refet_type i row foo_day)
        = Inr ((set_day_data refet_type i row foo_day)
                 \<lparr>rh_min := min (aFNEs (r_TDew row) / aFNEs (r_TMax row) * 100) 100\<rparr>)
      \<and> day_step aFNEs compute_crop_et refet_type crop i row (foo, foo_day)
          = compute_crop_et crop foo
              ((set_day_data refet_type i row foo_day)
                 \<lparr>rh_min := min (aFNEs (r_TDew row) / aFNEs (r_TMax row) * 100) 100\<rparr>))"
  by (simp add: day_step_def compute_rh_min_def set_day_data_def Let_def)

theorem rh_min_from_dewpoint_witness:
  "r_TDew (example_row\<lparr>r_TDew := - 99\<rparr>) < - 90
   \<and> rh_min (projr (compute_rh_min (\<lambda>t. t + 200)
                (set_day_data 0 0 (example_row\<lparr>r_TDew := - 99\<rparr>) DayData_init))) = 30
   \<and> \<not> isl (compute_rh_min (\<lambda>t. t + 200)
                (set_day_data 0 0 (example_row\<lparr>r_TDew := - 99\<rparr>) DayData_init))
   \<and> \<not> (r_TDew example_row < - 90 \<or> r_TMax example_row < - 90)
   \<and> r_TMax example_row + 200 \<noteq> 0
   \<and> rh_min (projr (compute_rh_min (\<lambda>t. t + 200)
                (set_day_data 0 0 example_row DayData_init))) = 1050 / 11
   \<and> \<not> isl (compute_rh_min (\<lambda>t. t + 200) (set_day_data 0 0 example_row DayData_init))"
proof -
  have a: "r_TDew (example_row\<lparr>r_TDew := - 99\<rparr>) < - 90" by simp
  have b: "\<not> (r_TDew example_row < - 90 \<or> r_TMax example_row < - 90)"
    "r_TMax example_row + 200 \<noteq> 0" "r_TDew example_row = 10" "r_TMax example_row = 20"
    by (simp_all add: example_row_def)
  show ?thesis
    using a b
      rh_min_from_dewpoint [of "example_row\<lparr>r_TDew := - 99\<rparr>" "\<lambda>t. t + 200" 0 0 DayData_init
        compute_crop_gdd generic_crop foo_zero]
      rh_min_from_dewpoint [of example_row "\<lambda>t. t + 200" 0 0 DayData_init
        compute_crop_gdd generic_crop foo_zero]
    by simp
qed

end
